theory Spec2Isabelle
  imports Main "HOL-Library.AList"
begin

section \<open>JavaScript values, objects and React elements\<close>

text \<open>
  The widget file \<^verbatim>\<open>widgets/HierarchicalMenu.js\<close> is five lines of JSX around a
  module-level constant. Its data are JavaScript values: primitives, functions, arrays,
  plain objects and React elements. Functions are kept as far as the file distinguishes
  them: the closure returned by \<^verbatim>\<open>classNames(block)\<close>, which remembers its block, and
  any other function, known only by its identity. Numbers are the integers a
  configuration carries (\<^verbatim>\<open>limitMin\<close>, \<^verbatim>\<open>limitMax\<close>).
\<close>

datatype fn = ClassNamesFn string | HostFn nat

datatype comp = C_BaseWidget | C_HierarchicalMenuComponent

datatype jsval =
    JUndefined
  | JNull
  | JBool bool
  | JNum int
  | JStr string
  | JFun fn
  | JArr "jsval list"
  | JObj "(string \<times> jsval) list"
  | JElem comp "(string \<times> jsval) list"

text \<open>
  An object is the list of its own enumerable properties in insertion order. A property
  read \<^verbatim>\<open>o.k\<close> gives \<^verbatim>\<open>undefined\<close> when \<^verbatim>\<open>o\<close> has no property \<^verbatim>\<open>k\<close>; an
  assignment \<^verbatim>\<open>o[k] = v\<close> replaces the value in place or appends the property.
\<close>

type_synonym object = "(string \<times> jsval) list"

definition hasOwnProperty :: "object \<Rightarrow> string \<Rightarrow> bool" where
  "hasOwnProperty ob k = (k \<in> set (map fst ob))"

definition getp :: "object \<Rightarrow> string \<Rightarrow> jsval" where
  "getp ob k = (case map_of ob k of None \<Rightarrow> JUndefined | Some v \<Rightarrow> v)"

definition setp :: "string \<Rightarrow> jsval \<Rightarrow> object \<Rightarrow> object" where
  "setp k v ob = AList.update k v ob"

text \<open>
  The helper the JSX spread compiles to (\<^verbatim>\<open>Object.assign\<close>):
  \<^verbatim>\<open>for (var key in source) if (hasOwnProperty(source, key)) target[key] = source[key];\<close>
\<close>

definition extends :: "object \<Rightarrow> object \<Rightarrow> object" where
  "extends target source = fold (\<lambda>key t. setp key (getp source key) t) (map fst source) target"

text \<open>
  \<^verbatim>\<open>React.createElement(type, config, ...children)\<close> copies every own property of
  \<^verbatim>\<open>config\<close> into the element's props except the reserved names, then stores the
  children under \<^verbatim>\<open>children\<close>: nothing when there is none, the child itself when
  there is one, the array of them otherwise. (The reserved \<^verbatim>\<open>key\<close> and \<^verbatim>\<open>ref\<close>
  go to fields of the element that nothing here reads.)
\<close>

definition RESERVED_PROPS :: "string list" where
  "RESERVED_PROPS = [''key'', ''ref'', ''__self'', ''__source'']"

definition copyProps :: "object \<Rightarrow> object" where
  "copyProps config =
     fold (\<lambda>propName ps.
             if propName \<in> set RESERVED_PROPS then ps
             else setp propName (getp config propName) ps)
          (map fst config) []"

definition createElement :: "comp \<Rightarrow> object \<Rightarrow> jsval list \<Rightarrow> jsval" where
  "createElement type config children =
     JElem type
       (case children of
          [] \<Rightarrow> copyProps config
        | [c] \<Rightarrow> setp ''children'' c (copyProps config)
        | _ \<Rightarrow> setp ''children'' (JArr children) (copyProps config))"

fun elemType :: "jsval \<Rightarrow> comp option" where
  "elemType (JElem t ps) = Some t"
| "elemType _ = None"

fun elemProps :: "jsval \<Rightarrow> object" where
  "elemProps (JElem t ps) = ps"
| "elemProps _ = []"

section \<open>The class-name function\<close>

text \<open>
  Modelled from the spec: \<^verbatim>\<open>classNames\<close> (\<^verbatim>\<open>../components/classNames\<close>) is not among
  the sources. The specification describes the class name of a region as "derived
  deterministically from the widget's name, e.g. concatenation of a fixed prefix and
  region key", and the theme keys of the file have the shape
  \<^verbatim>\<open>ais-HierarchicalMenu-<region>\<close>.
\<close>

definition classNames :: "string \<Rightarrow> string \<Rightarrow> string" where
  "classNames block element = ''ais-'' @ block @ ''-'' @ element"

text \<open>Calling a function value on a region key; a foreign function is opaque.\<close>

fun callFn :: "fn \<Rightarrow> string \<Rightarrow> string option" where
  "callFn (ClassNamesFn block) element = Some (classNames block element)"
| "callFn (HostFn _) element = None"

text \<open>\<^verbatim>\<open>const cx = classNames('HierarchicalMenu');\<close>\<close>

definition cx :: fn where
  "cx = ClassNamesFn ''HierarchicalMenu''"

section \<open>The widget\<close>

text \<open>
  \<^verbatim>\<open>
  const Widget = props => (
    <BaseWidget cx={cx} header={props.header} footer={props.footer}>
      <HierarchicalMenuComponent cx={cx} {...props} />
    </BaseWidget>
  );
  \<close>
  that is
  \<^verbatim>\<open>
  React.createElement(BaseWidget,
    { cx: cx, header: props.header, footer: props.footer },
    React.createElement(HierarchicalMenuComponent, _extends({ cx: cx }, props)))
  \<close>
\<close>

definition innerConfig :: "object \<Rightarrow> object" where
  "innerConfig props = extends [(''cx'', JFun cx)] props"

definition outerConfig :: "object \<Rightarrow> object" where
  "outerConfig props =
     [(''cx'', JFun cx), (''header'', getp props ''header''), (''footer'', getp props ''footer'')]"

definition Widget :: "object \<Rightarrow> jsval" where
  "Widget props =
     createElement C_BaseWidget (outerConfig props)
       [createElement C_HierarchicalMenuComponent (innerConfig props) []]"

text \<open>The element handed to the inner renderer is the only child of the outer one.\<close>

definition innerElement :: "jsval \<Rightarrow> jsval" where
  "innerElement e = getp (elemProps e) ''children''"

section \<open>The outer chrome\<close>

text \<open>
  Modelled from the spec: \<^verbatim>\<open>BaseWidget\<close> (\<^verbatim>\<open>./BaseWidget\<close>) is not among the
  sources. The specification describes an outer chrome container which applies the
  class-name function to every themable region, renders \<^verbatim>\<open>header\<close> and
  \<^verbatim>\<open>footer\<close> as opaque passthrough content if provided and neither if absent, the
  header before the body and the footer after it, and puts the delegated tree in the body.
  Its output is a tree of regions, each with its key and the class-name function applied
  to it, around passthrough content.
\<close>

datatype html = Region string jsval "html list" | Content jsval

text \<open>
  Modelled from the spec: "if provided" and "if absent", of a prop whose value is
  \<^verbatim>\<open>undefined\<close> or \<^verbatim>\<open>null\<close> when nothing is given for it.
\<close>

definition provided :: "jsval \<Rightarrow> bool" where
  "provided v = (v \<noteq> JUndefined \<and> v \<noteq> JNull)"

text \<open>
  Modelled from the spec: the chrome of \<^verbatim>\<open>BaseWidget\<close>, a root region around the
  header region (if provided), the body holding the children, and the footer region (if
  provided), every region classed by the \<^verbatim>\<open>cx\<close> it is given.
\<close>

definition BaseWidget :: "object \<Rightarrow> html" where
  "BaseWidget ps =
     (let c = getp ps ''cx''; header = getp ps ''header''; footer = getp ps ''footer''
      in Region ''root'' c
           ((if provided header then [Region ''header'' c [Content header]] else [])
            @ [Region ''body'' c [Content (getp ps ''children'')]]
            @ (if provided footer then [Region ''footer'' c [Content footer]] else [])))"

text \<open>Rendering the widget's element expands the outer component on the element's props.\<close>

definition renderChrome :: "object \<Rightarrow> html" where
  "renderChrome props = BaseWidget (elemProps (Widget props))"

text \<open>
  The regions directly inside the chrome, in order, each with what it holds; and the
  class-name functions of all regions of a tree.
\<close>

fun regions :: "html \<Rightarrow> (string \<times> html list) list" where
  "regions (Region k c hs) =
     concat (map (\<lambda>h. case h of Region k' c' hs' \<Rightarrow> [(k', hs')] | Content v \<Rightarrow> []) hs)"
| "regions (Content v) = []"

fun regionFns :: "html \<Rightarrow> jsval list" where
  "regionFns (Region k c hs) = c # concat (map regionFns hs)"
| "regionFns (Content v) = []"

section \<open>Prop validation\<close>

text \<open>
  \<^verbatim>\<open>
  Widget.propTypes = {
    header: PropTypes.node,
    footer: PropTypes.node,
  };
  \<close>
  The table is data of this file; the check is the framework's. \<^verbatim>\<open>PropTypes.node\<close>
  accepts what React can render: numbers, strings, \<^verbatim>\<open>undefined\<close>, \<^verbatim>\<open>null\<close>,
  \<^verbatim>\<open>false\<close>, elements, and arrays of these. A checker that is not
  \<^verbatim>\<open>isRequired\<close> accepts \<^verbatim>\<open>undefined\<close> and \<^verbatim>\<open>null\<close> before it looks at the type.
  Running a table on props gives the failures of its entries, in the order of the table.
\<close>

datatype checker = PropTypes_node

definition Widget_propTypes :: "(string \<times> checker) list" where
  "Widget_propTypes = [(''header'', PropTypes_node), (''footer'', PropTypes_node)]"

fun isNode :: "jsval \<Rightarrow> bool" where
  "isNode (JNum n) = True"
| "isNode (JStr s) = True"
| "isNode JUndefined = True"
| "isNode (JBool b) = (\<not> b)"
| "isNode (JArr xs) = list_all isNode xs"
| "isNode JNull = True"
| "isNode (JElem t ps) = True"
| "isNode (JObj ob) = False"
| "isNode (JFun f) = False"

fun validate :: "checker \<Rightarrow> jsval \<Rightarrow> bool" where
  "validate PropTypes_node v = (if v = JUndefined \<or> v = JNull then True else isNode v)"

datatype config_error = FailedPropType string

definition checkPropTypes :: "(string \<times> checker) list \<Rightarrow> object \<Rightarrow> config_error list" where
  "checkPropTypes typeSpecs values =
     concat (map (\<lambda>(typeSpecName, c).
                    if validate c (getp values typeSpecName) then []
                    else [FailedPropType typeSpecName])
                 typeSpecs)"

text \<open>
  What becomes of a failure is the framework's doing as well. React runs the table of a
  component in a development build only; a production build makes no check. In a
  development build each failure is printed on the console as a warning unless the same
  failure has been printed before in the process: the failures already printed are kept in
  \<^verbatim>\<open>loggedTypeFailures\<close>. A failure never stops the render: the component function is
  called on the props all the same, in either build.
\<close>

datatype build = Development | Production

record host =
  loggedTypeFailures :: "config_error list"
  console :: "config_error list"

fun warnOnce :: "config_error list \<Rightarrow> host \<Rightarrow> host" where
  "warnOnce [] h = h"
| "warnOnce (e # es) h =
     warnOnce es
       (if e \<in> set (loggedTypeFailures h) then h
        else h\<lparr>loggedTypeFailures := e # loggedTypeFailures h, console := console h @ [e]\<rparr>)"

definition renderWidget :: "build \<Rightarrow> object \<Rightarrow> host \<Rightarrow> jsval \<times> host" where
  "renderWidget b props h =
     (Widget props,
      case b of
        Production \<Rightarrow> h
      | Development \<Rightarrow> warnOnce (checkPropTypes Widget_propTypes props) h)"

text \<open>A sequence of renders in one process, each on its own props.\<close>

fun renders :: "build \<Rightarrow> object list \<Rightarrow> host \<Rightarrow> host" where
  "renders b [] h = h"
| "renders b (props # rest) h = renders b rest (snd (renderWidget b props h))"

section \<open>Theme keys\<close>

text \<open>
  The \<^verbatim>\<open>@themeKey\<close> lines of the file's documentation, one constructor per line, in
  the order of the file; \<^verbatim>\<open>list--lvl0\<close>, \<^verbatim>\<open>list--lvl1\<close> "(and so on)" is one key
  per level.
\<close>

datatype region =
    Root | Header | Body | SearchBox | ListAll | ListLvl nat
  | Item | ItemSelected | ItemParent | Link | Label | Count | Footer

definition digit :: "nat \<Rightarrow> char" where
  "digit d = char_of (48 + d)"

function decimal :: "nat \<Rightarrow> string" where
  "decimal n = (if n < 10 then [digit n] else decimal (n div 10) @ [digit (n mod 10)])"
  by pat_completeness auto
termination
  by (relation "measure id") auto

declare decimal.simps [simp del]

fun themeKey :: "region \<Rightarrow> string" where
  "themeKey Root = ''ais-HierarchicalMenu''"
| "themeKey Header = ''ais-HierarchicalMenu-header''"
| "themeKey Body = ''ais-HierarchicalMenu-body''"
| "themeKey SearchBox = ''ais-HierarchicalMenu-searchBox''"
| "themeKey ListAll = ''ais-HierarchicalMenu-list''"
| "themeKey (ListLvl n) = ''ais-HierarchicalMenu-list--lvl'' @ decimal n"
| "themeKey Item = ''ais-HierarchicalMenu-item''"
| "themeKey ItemSelected = ''ais-HierarchicalMenu-item--selected''"
| "themeKey ItemParent = ''ais-HierarchicalMenu-item--parent''"
| "themeKey Link = ''ais-HierarchicalMenu-link''"
| "themeKey Label = ''ais-HierarchicalMenu-label''"
| "themeKey Count = ''ais-HierarchicalMenu-count''"
| "themeKey Footer = ''ais-HierarchicalMenu-footer''"

definition themeKeys :: "string set" where
  "themeKeys = range themeKey"

text \<open>
  The enumeration in the specification's words: "one per visual region: root, header,
  body, list-per-level, item, selected item, parent item, link, label, count, footer".
\<close>

fun specRegion :: "region \<Rightarrow> bool" where
  "specRegion Root = True"
| "specRegion Header = True"
| "specRegion Body = True"
| "specRegion (ListLvl n) = True"
| "specRegion Item = True"
| "specRegion ItemSelected = True"
| "specRegion ItemParent = True"
| "specRegion Link = True"
| "specRegion Label = True"
| "specRegion Count = True"
| "specRegion Footer = True"
| "specRegion _ = False"

definition specThemeKeys :: "string set" where
  "specThemeKeys = themeKey ` {r. specRegion r}"

section \<open>Documented props and their defaults\<close>

text \<open>
  The \<^verbatim>\<open>@propType\<close> lines of the file's documentation: name, type, and whether the
  prop is required, optional, or optional with a default.
\<close>

datatype presence = Required | Optional | Default jsval

definition propTypeDocs :: "(string \<times> string \<times> presence) list" where
  "propTypeDocs =
     [(''attributes'', ''string'', Required),
      (''showMore'', ''boolean'', Default (JBool False)),
      (''limitMin'', ''number'', Default (JNum 10)),
      (''limitMax'', ''number'', Default (JNum 20)),
      (''separator'', ''string'', Default (JStr ''>'')),
      (''rootPath'', ''string[]'', Default JNull),
      (''showParentLevel'', ''boolean'', Default (JBool True)),
      (''defaultRefinement'', ''string'', Optional),
      (''transformItems'', ''function'', Optional),
      (''header'', ''node'', Optional),
      (''footer'', ''node'', Optional)]"

fun documentedDefaults :: "(string \<times> string \<times> presence) list \<Rightarrow> object" where
  "documentedDefaults [] = []"
| "documentedDefaults ((name, ty, Default v) # ds) = (name, v) # documentedDefaults ds"
| "documentedDefaults (_ # ds) = documentedDefaults ds"

text \<open>
  Modelled from the spec: \<^verbatim>\<open>connectHierarchicalMenu\<close>
  (\<^verbatim>\<open>../connectors/connectHierarchicalMenu.js\<close>) is not among the sources. The
  specification gives the inbound props with their defaults (\<^verbatim>\<open>showMore\<close> false,
  \<^verbatim>\<open>limitMin\<close> 10, \<^verbatim>\<open>limitMax\<close> 20 "used only if showMore", \<^verbatim>\<open>separator\<close>
  \<^verbatim>\<open>>\<close>, \<^verbatim>\<open>rootPath\<close> none, \<^verbatim>\<open>showParentLevel\<close> true) and says that the
  connector passes the configuration through to the widget together with the state it
  supplies.
\<close>

text \<open>Modelled from the spec: the defaults of the inbound props.\<close>

definition defaultProps :: object where
  "defaultProps =
     [(''showMore'', JBool False), (''limitMin'', JNum 10), (''limitMax'', JNum 20),
      (''separator'', JStr ''>''), (''rootPath'', JNull), (''showParentLevel'', JBool True)]"

text \<open>
  Modelled from the spec: a default stands in for a prop that is omitted, which is a prop
  whose value is \<^verbatim>\<open>undefined\<close>.
\<close>

definition resolveDefaultProps :: "object \<Rightarrow> object \<Rightarrow> object" where
  "resolveDefaultProps defaults props =
     fold (\<lambda>propName ps.
             if getp ps propName = JUndefined then setp propName (getp defaults propName) ps
             else ps)
          (map fst defaults) props"

text \<open>
  Modelled from the spec: the connector passes the configuration, defaults resolved,
  through to the widget together with the state it supplies.
\<close>

definition connectHierarchicalMenu :: "(object \<Rightarrow> jsval) \<Rightarrow> object \<Rightarrow> object \<Rightarrow> jsval" where
  "connectHierarchicalMenu W state config =
     W (extends (resolveDefaultProps defaultProps config) state)"

text \<open>
  Modelled from the spec: \<^verbatim>\<open>limitMax\<close> is "used only if showMore"; with show-more
  enabled a level shows \<^verbatim>\<open>limitMin\<close> items first and \<^verbatim>\<open>limitMax\<close> after the expand
  action.
\<close>

definition itemLimit :: "bool \<Rightarrow> bool \<Rightarrow> int \<Rightarrow> int \<Rightarrow> int" where
  "itemLimit showMore expanded limitMin limitMax =
     (if showMore \<and> expanded then limitMax else limitMin)"

text \<open>\<^verbatim>\<open>export default connectHierarchicalMenu(Widget);\<close>\<close>

definition HierarchicalMenu :: "object \<Rightarrow> object \<Rightarrow> jsval" where
  "HierarchicalMenu = connectHierarchicalMenu Widget"

text \<open>
  A prop is omitted when the configuration gives no value for it and the connector's state
  does not supply it; what the inner renderer receives is read from the props of its
  element.
\<close>

definition omitted :: "object \<Rightarrow> object \<Rightarrow> string \<Rightarrow> bool" where
  "omitted state config k = (getp config k = JUndefined \<and> \<not> hasOwnProperty state k)"

definition received :: "object \<Rightarrow> object \<Rightarrow> string \<Rightarrow> jsval" where
  "received state config k = getp (elemProps (innerElement (HierarchicalMenu state config))) k"

section \<open>The widget on a store\<close>

text \<open>
  To speak of side effects the objects are put in a store: the props object lives at an
  address, an object literal allocates a fresh object, and the spread helper writes into
  its target in place, one property at a time. Elements are immutable values. Reading a
  property of something that is not an object is the failure \<^verbatim>\<open>None\<close>.
\<close>

record world =
  heap :: "nat \<Rightarrow> object option"
  fresh :: nat

definition alloc :: "object \<Rightarrow> world \<Rightarrow> nat \<times> world" where
  "alloc ob w = (fresh w, w\<lparr>heap := (heap w)(fresh w \<mapsto> ob), fresh := Suc (fresh w)\<rparr>)"

definition readProp :: "nat \<Rightarrow> string \<Rightarrow> world \<Rightarrow> jsval option" where
  "readProp a k w = map_option (\<lambda>ob. getp ob k) (heap w a)"

definition writeProp :: "nat \<Rightarrow> string \<Rightarrow> jsval \<Rightarrow> world \<Rightarrow> world option" where
  "writeProp a k v w =
     (case heap w a of
        None \<Rightarrow> None
      | Some ob \<Rightarrow> Some (w\<lparr>heap := (heap w)(a \<mapsto> setp k v ob)\<rparr>))"

definition ownKeys :: "nat \<Rightarrow> world \<Rightarrow> string list option" where
  "ownKeys a w = map_option (map fst) (heap w a)"

fun assignKeys :: "nat \<Rightarrow> nat \<Rightarrow> string list \<Rightarrow> world \<Rightarrow> world option" where
  "assignKeys target source [] w = Some w"
| "assignKeys target source (key # keys) w =
     (case readProp source key w of
        None \<Rightarrow> None
      | Some v \<Rightarrow>
          (case writeProp target key v w of
             None \<Rightarrow> None
           | Some w' \<Rightarrow> assignKeys target source keys w'))"

definition extendsAt :: "nat \<Rightarrow> nat \<Rightarrow> world \<Rightarrow> world option" where
  "extendsAt target source w =
     (case ownKeys source w of
        None \<Rightarrow> None
      | Some keys \<Rightarrow> assignKeys target source keys w)"

definition createElementAt :: "comp \<Rightarrow> nat \<Rightarrow> jsval list \<Rightarrow> world \<Rightarrow> jsval option" where
  "createElementAt type config children w =
     map_option (\<lambda>ob. createElement type ob children) (heap w config)"

definition Widget_run :: "nat \<Rightarrow> world \<Rightarrow> (jsval \<times> world) option" where
  "Widget_run props w =
     (case readProp props ''header'' w of
        None \<Rightarrow> None
      | Some header \<Rightarrow>
     (case readProp props ''footer'' w of
        None \<Rightarrow> None
      | Some footer \<Rightarrow>
     (let (outerCfg, w1) = alloc [(''cx'', JFun cx), (''header'', header), (''footer'', footer)] w;
          (innerCfg, w2) = alloc [(''cx'', JFun cx)] w1
      in case extendsAt innerCfg props w2 of
           None \<Rightarrow> None
         | Some w3 \<Rightarrow>
        (case createElementAt C_HierarchicalMenuComponent innerCfg [] w3 of
           None \<Rightarrow> None
         | Some inner \<Rightarrow>
        (case createElementAt C_BaseWidget outerCfg [inner] w3 of
           None \<Rightarrow> None
         | Some outer \<Rightarrow> Some (outer, w3))))))"

text \<open>A store is well formed when nothing lives at or above the next fresh address.\<close>

definition wf_world :: "world \<Rightarrow> bool" where
  "wf_world w = (\<forall>a. fresh w \<le> a \<longrightarrow> heap w a = None)"

text \<open>Every object of the first store is found unchanged in the second.\<close>

definition preserved :: "world \<Rightarrow> world \<Rightarrow> bool" where
  "preserved w w' = (\<forall>a ob. heap w a = Some ob \<longrightarrow> heap w' a = Some ob)"

section \<open>Properties of objects\<close>

lemma map_of_setp: "map_of (setp k v ob) = (map_of ob)(k \<mapsto> v)"
  by (simp add: setp_def update_conv')

lemma getp_setp: "getp (setp k v ob) k' = (if k' = k then v else getp ob k')"
  by (simp add: getp_def map_of_setp)

lemma hasOwnProperty_map_of: "hasOwnProperty ob k \<longleftrightarrow> map_of ob k \<noteq> None"
  by (simp add: hasOwnProperty_def map_of_eq_None_iff)

lemma map_of_assign_loop:
  "map_of (fold (\<lambda>key t. setp key (getp source key) t) ks target) k =
     (if k \<in> set ks then Some (getp source k) else map_of target k)"
  by (induction ks arbitrary: target) (auto simp: map_of_setp)

lemma map_of_extends:
  "map_of (extends target source) k =
     (case map_of source k of Some v \<Rightarrow> Some v | None \<Rightarrow> map_of target k)"
proof (cases "map_of source k")
  case None
  then have "k \<notin> set (map fst source)"
    by (simp add: map_of_eq_None_iff)
  with None show ?thesis
    by (simp add: extends_def map_of_assign_loop)
next
  case (Some v)
  then have "k \<in> set (map fst source)"
    by (metis map_of_eq_None_iff option.distinct(1) set_map)
  then have "map_of (extends target source) k = Some (getp source k)"
    by (simp add: extends_def map_of_assign_loop)
  with Some show ?thesis
    by (simp add: getp_def)
qed

lemma map_of_copy_loop:
  "map_of (fold (\<lambda>propName ps. if propName \<in> set RESERVED_PROPS then ps
                                 else setp propName (getp config propName) ps) ks acc) k =
     (if k \<in> set ks \<and> k \<notin> set RESERVED_PROPS then Some (getp config k) else map_of acc k)"
  by (induction ks arbitrary: acc) (auto simp: map_of_setp)

lemma map_of_copyProps:
  "map_of (copyProps config) k =
     (if k \<in> set RESERVED_PROPS then None else map_of config k)"
proof (cases "map_of config k")
  case None
  then have "k \<notin> set (map fst config)"
    by (simp add: map_of_eq_None_iff)
  with None show ?thesis
    by (simp add: copyProps_def map_of_copy_loop)
next
  case (Some v)
  then have "k \<in> set (map fst config)"
    by (metis map_of_eq_None_iff option.distinct(1) set_map)
  then have "map_of (copyProps config) k =
      (if k \<in> set RESERVED_PROPS then None else Some (getp config k))"
    by (simp add: copyProps_def map_of_copy_loop)
  with Some show ?thesis
    by (simp add: getp_def)
qed

lemma elemProps_inner:
  "map_of (elemProps (innerElement (Widget props))) k =
     (if k \<in> set RESERVED_PROPS then None
      else case map_of props k of
             Some v \<Rightarrow> Some v
           | None \<Rightarrow> if k = ''cx'' then Some (JFun cx) else None)"
  by (simp add: Widget_def innerElement_def createElement_def getp_setp
      map_of_copyProps innerConfig_def map_of_extends split: option.split)

lemma elemProps_outer:
  "map_of (elemProps (Widget props)) =
     [''cx'' \<mapsto> JFun cx, ''header'' \<mapsto> getp props ''header'',
      ''footer'' \<mapsto> getp props ''footer'',
      ''children'' \<mapsto> innerElement (Widget props)]"
  by (rule ext)
     (simp add: Widget_def innerElement_def createElement_def getp_setp map_of_setp
       map_of_copyProps outerConfig_def RESERVED_PROPS_def)

lemma elemType_Widget:
  "elemType (Widget props) = Some C_BaseWidget"
  "elemType (innerElement (Widget props)) = Some C_HierarchicalMenuComponent"
  by (simp_all add: Widget_def innerElement_def createElement_def getp_setp)

lemma regionFns_renderChrome: "set (regionFns (renderChrome props)) = {JFun cx}"
  by (simp add: renderChrome_def BaseWidget_def Let_def getp_def elemProps_outer)

lemma getp_extends:
  "getp (extends target source) k =
     (if hasOwnProperty source k then getp source k else getp target k)"
  by (simp add: getp_def map_of_extends hasOwnProperty_map_of split: option.split)

lemma getp_inner:
  "k \<notin> set RESERVED_PROPS \<Longrightarrow> k \<noteq> ''cx'' \<Longrightarrow>
     getp (elemProps (innerElement (Widget props))) k = getp props k"
  by (simp add: getp_def elemProps_inner split: option.split)

text \<open>The definitions a concrete render unfolds to.\<close>

lemmas render_defs =
  Widget_def innerElement_def createElement_def copyProps_def innerConfig_def outerConfig_def
  extends_def getp_def setp_def RESERVED_PROPS_def hasOwnProperty_def

section \<open>The run on a store computes the widget's value\<close>

lemma assignKeys_other_target:
  assumes "heap w source = Some sob" and "target \<noteq> source" and "heap w target = Some tob"
  shows "assignKeys target source ks w =
           Some (w\<lparr>heap := (heap w)(target \<mapsto>
                   fold (\<lambda>key t. setp key (getp sob key) t) ks tob)\<rparr>)"
  using assms
proof (induction ks arbitrary: w tob)
  case Nil
  then show ?case by (simp add: fun_upd_idem)
next
  case (Cons key ks)
  let ?v = "getp sob key"
  let ?w' = "w\<lparr>heap := (heap w)(target \<mapsto> setp key ?v tob)\<rparr>"
  have "assignKeys target source (key # ks) w = assignKeys target source ks ?w'"
    using Cons.prems by (simp add: readProp_def writeProp_def)
  also have "\<dots> = Some (?w'\<lparr>heap := (heap ?w')(target \<mapsto>
        fold (\<lambda>key t. setp key (getp sob key) t) ks (setp key ?v tob))\<rparr>)"
    using Cons.prems by (intro Cons.IH) simp_all
  also have "?w'\<lparr>heap := (heap ?w')(target \<mapsto>
        fold (\<lambda>key t. setp key (getp sob key) t) ks (setp key ?v tob))\<rparr> =
      w\<lparr>heap := (heap w)(target \<mapsto>
        fold (\<lambda>key t. setp key (getp sob key) t) (key # ks) tob)\<rparr>"
    by simp
  finally show ?case .
qed

lemma extendsAt_other_target:
  assumes "heap w source = Some sob" and "target \<noteq> source" and "heap w target = Some tob"
  shows "extendsAt target source w =
           Some (w\<lparr>heap := (heap w)(target \<mapsto> extends tob sob)\<rparr>)"
  using assms by (simp add: extendsAt_def ownKeys_def assignKeys_other_target extends_def)

lemma Widget_run_result:
  assumes "heap w p = Some props" and "wf_world w"
  shows "Widget_run p w =
           Some (Widget props,
                 w\<lparr>heap := (heap w)(fresh w \<mapsto> outerConfig props,
                                     Suc (fresh w) \<mapsto> innerConfig props),
                   fresh := Suc (Suc (fresh w))\<rparr>)"
proof -
  from assms have lt: "p < fresh w"
    by (metis wf_world_def not_le option.distinct(1))
  let ?w2 = "w\<lparr>heap := (heap w)(fresh w \<mapsto> outerConfig props,
                                 Suc (fresh w) \<mapsto> [(''cx'', JFun cx)]),
               fresh := Suc (Suc (fresh w))\<rparr>"
  have e: "extendsAt (Suc (fresh w)) p ?w2 =
      Some (?w2\<lparr>heap := (heap ?w2)(Suc (fresh w) \<mapsto> extends [(''cx'', JFun cx)] props)\<rparr>)"
    using assms lt by (intro extendsAt_other_target) simp_all
  show ?thesis
    using assms lt e
    by (simp add: Widget_run_def readProp_def alloc_def outerConfig_def innerConfig_def
        createElementAt_def Widget_def)
qed

lemma preserved_alloc2:
  "wf_world w \<Longrightarrow>
     preserved w (w\<lparr>heap := (heap w)(fresh w \<mapsto> a, Suc (fresh w) \<mapsto> b), fresh := n\<rparr>)"
  by (auto simp: preserved_def wf_world_def)

section \<open>What the inner renderer receives\<close>

text \<open>
  Claim C1 as the specification states it: of props \<^verbatim>\<open>{ header, footer, ...rest }\<close>
  the inner renderer gets the fields of \<^verbatim>\<open>rest\<close> and the class-name function, and not
  \<^verbatim>\<open>header\<close> and \<^verbatim>\<open>footer\<close>. The spread \<^verbatim>\<open>{...props}\<close> copies all of props, so
  for props with a header, a footer and one more field the inner element owns all three
  beside \<^verbatim>\<open>cx\<close>.
\<close>

theorem inner_owns_header_footer_counterexample:
  "elemProps (innerElement (Widget
       [(''header'', JStr ''Categories''), (''footer'', JStr ''End''),
        (''attributes'', JArr [JStr ''category''])])) =
     [(''cx'', JFun cx), (''header'', JStr ''Categories''), (''footer'', JStr ''End''),
      (''attributes'', JArr [JStr ''category''])]
   \<and> hasOwnProperty (elemProps (innerElement (Widget
       [(''header'', JStr ''Categories''), (''footer'', JStr ''End''),
        (''attributes'', JArr [JStr ''category''])]))) ''header''
   \<and> hasOwnProperty (elemProps (innerElement (Widget
       [(''header'', JStr ''Categories''), (''footer'', JStr ''End''),
        (''attributes'', JArr [JStr ''category''])]))) ''footer''"
  by (simp add: render_defs)

text \<open>
  Claim C1, amended: the inner renderer receives every field of props, \<^verbatim>\<open>header\<close> and
  \<^verbatim>\<open>footer\<close> included when props has them, each with the value props gives it, and the
  widget's class-name function under \<^verbatim>\<open>cx\<close> when props has no \<^verbatim>\<open>cx\<close>; nothing else.
  Only the names React reserves are not props of an element. The outer chrome receives
  \<^verbatim>\<open>header\<close> and \<^verbatim>\<open>footer\<close> as well.
\<close>

theorem inner_receives_all_props:
  "(\<forall>k. map_of (elemProps (innerElement (Widget props))) k =
          (if k \<in> set RESERVED_PROPS then None
           else case map_of props k of
                  Some v \<Rightarrow> Some v
                | None \<Rightarrow> if k = ''cx'' then Some (JFun cx) else None))
   \<and> elemType (innerElement (Widget props)) = Some C_HierarchicalMenuComponent
   \<and> elemType (Widget props) = Some C_BaseWidget
   \<and> getp (elemProps (Widget props)) ''header'' = getp props ''header''
   \<and> getp (elemProps (Widget props)) ''footer'' = getp props ''footer''"
  by (simp add: elemProps_inner elemProps_outer getp_def elemType_Widget)

theorem inner_receives_all_props_witness:
  "map_of (elemProps (innerElement (Widget
       [(''header'', JStr ''Brands''), (''limitMin'', JNum 5), (''key'', JStr ''menu'')])))
     ''header'' = Some (JStr ''Brands'')
   \<and> map_of (elemProps (innerElement (Widget
       [(''header'', JStr ''Brands''), (''limitMin'', JNum 5), (''key'', JStr ''menu'')])))
     ''key'' = None
   \<and> getp (elemProps (Widget
       [(''header'', JStr ''Brands''), (''limitMin'', JNum 5), (''key'', JStr ''menu'')]))
     ''header'' = JStr ''Brands''"
  using inner_receives_all_props
    [of "[(''header'', JStr ''Brands''), (''limitMin'', JNum 5), (''key'', JStr ''menu'')]"]
  by (simp add: RESERVED_PROPS_def getp_def)

section \<open>The class-name function and where it goes\<close>

text \<open>
  Claim C8: the attribute \<^verbatim>\<open>cx={cx}\<close> comes before the spread on the inner component, so
  when the caller's props have a \<^verbatim>\<open>cx\<close> of their own the inner renderer receives the
  caller's value, while the outer chrome still receives the widget's function; the two
  regions then use different class-name functions. (The widget's function is private to
  the module, so the caller's value is another one.)
\<close>

theorem caller_cx_overrides_inner:
  assumes "map_of props ''cx'' = Some v" and "v \<noteq> JFun cx"
  shows "getp (elemProps (innerElement (Widget props))) ''cx'' = v
       \<and> getp (elemProps (Widget props)) ''cx'' = JFun cx
       \<and> getp (elemProps (innerElement (Widget props))) ''cx''
           \<noteq> getp (elemProps (Widget props)) ''cx''"
  using assms by (simp add: getp_def elemProps_inner elemProps_outer RESERVED_PROPS_def)

theorem caller_cx_overrides_inner_witness:
  "map_of [(''attributes'', JArr [JStr ''category'']), (''cx'', JFun (HostFn 7))] ''cx''
     = Some (JFun (HostFn 7))
   \<and> JFun (HostFn 7) \<noteq> JFun cx
   \<and> getp (elemProps (innerElement (Widget
        [(''attributes'', JArr [JStr ''category'']), (''cx'', JFun (HostFn 7))]))) ''cx''
     = JFun (HostFn 7)
   \<and> getp (elemProps (Widget
        [(''attributes'', JArr [JStr ''category'']), (''cx'', JFun (HostFn 7))])) ''cx''
     = JFun cx"
proof -
  have h1: "map_of [(''attributes'', JArr [JStr ''category'']), (''cx'', JFun (HostFn 7))] ''cx''
      = Some (JFun (HostFn 7))"
    by simp
  have h2: "JFun (HostFn 7) \<noteq> JFun cx"
    by (simp add: cx_def)
  show ?thesis
    using h1 h2 caller_cx_overrides_inner [OF h1 h2] by simp
qed

text \<open>
  Claim C4 as the specification states it: one class-name function, derived from the
  widget's name, is forwarded unchanged to both the outer chrome and the inner renderer.
  For props that carry a \<^verbatim>\<open>cx\<close> of their own the inner renderer receives that one
  instead.
\<close>

theorem same_cx_to_both_counterexample:
  "getp (elemProps (innerElement (Widget [(''cx'', JFun (HostFn 0))]))) ''cx'' = JFun (HostFn 0)
   \<and> getp (elemProps (Widget [(''cx'', JFun (HostFn 0))])) ''cx'' = JFun cx
   \<and> JFun (HostFn 0) \<noteq> JFun cx"
  by (simp add: render_defs cx_def)

text \<open>
  Claim C4, amended: the widget's class-name function is derived from the name
  \<^verbatim>\<open>HierarchicalMenu\<close> as the fixed prefix followed by the region key, giving
  \<^verbatim>\<open>ais-HierarchicalMenu-<region>\<close>; it is forwarded unchanged to the outer chrome for
  every props, where every region of the chrome is classed by it, and to the inner
  renderer whenever props has no \<^verbatim>\<open>cx\<close> field of its own.
\<close>

theorem cx_prefix_and_forwarding:
  "callFn cx r = Some (''ais-HierarchicalMenu-'' @ r)
   \<and> getp (elemProps (Widget props)) ''cx'' = JFun cx
   \<and> set (regionFns (renderChrome props)) = {JFun cx}
   \<and> (\<not> hasOwnProperty props ''cx''
        \<longrightarrow> getp (elemProps (innerElement (Widget props))) ''cx'' = JFun cx)"
  by (simp add: getp_def elemProps_inner elemProps_outer RESERVED_PROPS_def cx_def
      classNames_def hasOwnProperty_map_of regionFns_renderChrome [unfolded cx_def])

theorem cx_prefix_and_forwarding_witness:
  "callFn cx ''body'' = Some ''ais-HierarchicalMenu-body''
   \<and> \<not> hasOwnProperty [(''separator'', JStr ''/'')] ''cx''
   \<and> getp (elemProps (Widget [(''separator'', JStr ''/'')])) ''cx'' = JFun cx
   \<and> getp (elemProps (innerElement (Widget [(''separator'', JStr ''/'')]))) ''cx'' = JFun cx"
  using cx_prefix_and_forwarding [of "''body''" "[(''separator'', JStr ''/'')]"]
  by (simp add: hasOwnProperty_def)

text \<open>
  Claim C10 as the specification states it: every render of every instance uses the one
  mapping from theme region to class name that \<^verbatim>\<open>cx\<close> computes. A render whose props
  carry a \<^verbatim>\<open>cx\<close> of their own hands that one to the inner renderer, which then classes
  an item otherwise than the widget's \<^verbatim>\<open>cx\<close> does.
\<close>

theorem inner_mapping_varies_counterexample:
  "getp (elemProps (innerElement (Widget [(''cx'', JFun (ClassNamesFn ''Menu''))]))) ''cx''
     = JFun (ClassNamesFn ''Menu'')
   \<and> callFn (ClassNamesFn ''Menu'') ''item'' = Some ''ais-Menu-item''
   \<and> callFn cx ''item'' = Some ''ais-HierarchicalMenu-item''
   \<and> getp (elemProps (innerElement (Widget []))) ''cx'' = JFun cx"
  by (simp add: render_defs cx_def classNames_def)

text \<open>
  Claim C10, amended: \<^verbatim>\<open>cx\<close> is a constant of the module, computed from the fixed
  string \<^verbatim>\<open>HierarchicalMenu\<close>. Every render, whatever the props and whatever the store
  it runs on, hands this same function to the outer chrome, and to the inner renderer
  whenever props has no \<^verbatim>\<open>cx\<close> field of its own; so among renders whose props have no
  \<^verbatim>\<open>cx\<close> the mapping from region to class name is the same for both regions.
\<close>

theorem cx_invariant_unless_overridden:
  "getp (elemProps (Widget props)) ''cx'' = JFun cx
   \<and> getp (elemProps (Widget props')) ''cx'' = getp (elemProps (Widget props)) ''cx''
   \<and> (\<not> hasOwnProperty props ''cx'' \<and> \<not> hasOwnProperty props' ''cx'' \<longrightarrow>
        getp (elemProps (innerElement (Widget props))) ''cx'' = JFun cx
        \<and> getp (elemProps (innerElement (Widget props'))) ''cx''
            = getp (elemProps (innerElement (Widget props))) ''cx'')
   \<and> (heap w p = Some props \<and> wf_world w \<longrightarrow>
        (\<exists>out w'. Widget_run p w = Some (out, w')
           \<and> getp (elemProps out) ''cx'' = JFun cx
           \<and> (\<not> hasOwnProperty props ''cx''
                \<longrightarrow> getp (elemProps (innerElement out)) ''cx'' = JFun cx)))
   \<and> callFn cx r = Some (''ais-HierarchicalMenu-'' @ r)"
  by (simp add: cx_def [symmetric] getp_def elemProps_outer elemProps_inner Widget_run_result
      hasOwnProperty_map_of RESERVED_PROPS_def)
     (simp add: cx_def classNames_def)

theorem cx_invariant_unless_overridden_witness:
  "\<not> hasOwnProperty [(''header'', JStr ''Brands'')] ''cx''
   \<and> \<not> hasOwnProperty [(''showMore'', JBool True)] ''cx''
   \<and> getp (elemProps (innerElement (Widget [(''showMore'', JBool True)]))) ''cx''
       = getp (elemProps (innerElement (Widget [(''header'', JStr ''Brands'')]))) ''cx''
   \<and> getp (elemProps (Widget [(''showMore'', JBool True)])) ''cx''
       = getp (elemProps (Widget [(''header'', JStr ''Brands'')])) ''cx''
   \<and> heap \<lparr>heap = [0 \<mapsto> [(''header'', JStr ''Brands'')]], fresh = 1\<rparr> 0
        = Some [(''header'', JStr ''Brands'')]
   \<and> wf_world \<lparr>heap = [0 \<mapsto> [(''header'', JStr ''Brands'')]], fresh = 1\<rparr>
   \<and> (\<exists>out w'. Widget_run 0 \<lparr>heap = [0 \<mapsto> [(''header'', JStr ''Brands'')]], fresh = 1\<rparr>
                     = Some (out, w')
                 \<and> getp (elemProps out) ''cx'' = JFun cx
                 \<and> getp (elemProps (innerElement out)) ''cx'' = JFun cx)"
  using cx_invariant_unless_overridden
    [of "[(''header'', JStr ''Brands'')]" "[(''showMore'', JBool True)]"
        "\<lparr>heap = [0 \<mapsto> [(''header'', JStr ''Brands'')]], fresh = 1\<rparr>" 0 "''root''"]
  by (simp add: wf_world_def hasOwnProperty_def)

section \<open>Header and footer in the chrome\<close>

text \<open>
  Claim C3: if \<^verbatim>\<open>header\<close> is provided it is rendered before the body region, if
  \<^verbatim>\<open>footer\<close> is provided it is rendered after the body region, and a header or footer
  that is absent leaves no region at all. The regions inside the chrome are, in order:
  the header region holding props' header when it is provided, the body holding the inner
  renderer's element, the footer region holding props' footer when it is provided.
\<close>

theorem header_before_body_footer_after:
  "regions (renderChrome props) =
     (if provided (getp props ''header'')
      then [(''header'', [Content (getp props ''header'')])] else [])
     @ [(''body'', [Content (innerElement (Widget props))])]
     @ (if provided (getp props ''footer'')
        then [(''footer'', [Content (getp props ''footer'')])] else [])"
  by (simp add: renderChrome_def BaseWidget_def Let_def getp_def elemProps_outer)

theorem header_before_body_footer_after_witness:
  "provided (getp [(''header'', JStr ''Categories''), (''showMore'', JBool True)] ''header'')
   \<and> \<not> provided (getp [(''header'', JStr ''Categories''), (''showMore'', JBool True)] ''footer'')
   \<and> regions (renderChrome [(''header'', JStr ''Categories''), (''showMore'', JBool True)]) =
       [(''header'', [Content (JStr ''Categories'')]),
        (''body'', [Content (JElem C_HierarchicalMenuComponent
           [(''cx'', JFun cx), (''header'', JStr ''Categories''), (''showMore'', JBool True)])])]"
  using header_before_body_footer_after
    [of "[(''header'', JStr ''Categories''), (''showMore'', JBool True)]"]
  by (simp add: provided_def render_defs)

section \<open>Prop validation\<close>

lemma checkPropTypes_Widget:
  "checkPropTypes Widget_propTypes props =
     (if isNode (getp props ''header'') then [] else [FailedPropType ''header''])
     @ (if isNode (getp props ''footer'') then [] else [FailedPropType ''footer''])"
  by (auto simp: checkPropTypes_def Widget_propTypes_def)

lemma warnOnce_logged_mono:
  "set (loggedTypeFailures h) \<subseteq> set (loggedTypeFailures (warnOnce es h))"
proof (induction es arbitrary: h)
  case Nil
  then show ?case by simp
next
  case (Cons e es)
  let ?h' = "if e \<in> set (loggedTypeFailures h) then h
             else h\<lparr>loggedTypeFailures := e # loggedTypeFailures h, console := console h @ [e]\<rparr>"
  have "set (loggedTypeFailures h) \<subseteq> set (loggedTypeFailures ?h')" by auto
  also have "\<dots> \<subseteq> set (loggedTypeFailures (warnOnce es ?h'))" by (rule Cons.IH)
  finally show ?case by simp
qed

lemma warnOnce_logs_all: "set es \<subseteq> set (loggedTypeFailures (warnOnce es h))"
proof (induction es arbitrary: h)
  case Nil
  then show ?case by simp
next
  case (Cons e es)
  let ?h' = "if e \<in> set (loggedTypeFailures h) then h
             else h\<lparr>loggedTypeFailures := e # loggedTypeFailures h, console := console h @ [e]\<rparr>"
  have "e \<in> set (loggedTypeFailures ?h')" by simp
  then have "e \<in> set (loggedTypeFailures (warnOnce es ?h'))"
    using warnOnce_logged_mono [of ?h' es] by blast
  moreover have "set es \<subseteq> set (loggedTypeFailures (warnOnce es ?h'))" by (rule Cons.IH)
  ultimately show ?case by simp
qed

lemma warnOnce_all_logged: "set es \<subseteq> set (loggedTypeFailures h) \<Longrightarrow> warnOnce es h = h"
  by (induction es arbitrary: h) auto

lemma console_warnOnce:
  "distinct es \<Longrightarrow>
     console (warnOnce es h) = console h @ filter (\<lambda>e. e \<notin> set (loggedTypeFailures h)) es"
proof (induction es arbitrary: h)
  case Nil
  then show ?case by simp
next
  case (Cons e es)
  then have "e \<notin> set es" and "distinct es" by simp_all
  then have "filter (\<lambda>x. x \<notin> set (e # loggedTypeFailures h)) es
      = filter (\<lambda>x. x \<notin> set (loggedTypeFailures h)) es"
    by (intro filter_cong) auto
  with Cons.IH \<open>distinct es\<close> show ?case by simp
qed

lemma warnOnce_invariant:
  assumes "distinct (console h)" and "set (console h) \<subseteq> set (loggedTypeFailures h)"
  shows "distinct (console (warnOnce es h))
       \<and> set (console (warnOnce es h)) \<subseteq> set (loggedTypeFailures (warnOnce es h))"
  using assms
proof (induction es arbitrary: h)
  case Nil
  then show ?case by simp
next
  case (Cons e es)
  let ?h' = "if e \<in> set (loggedTypeFailures h) then h
             else h\<lparr>loggedTypeFailures := e # loggedTypeFailures h, console := console h @ [e]\<rparr>"
  from Cons.prems have "distinct (console ?h')"
    and "set (console ?h') \<subseteq> set (loggedTypeFailures ?h')"
    by auto
  then have "distinct (console (warnOnce es ?h'))
       \<and> set (console (warnOnce es ?h')) \<subseteq> set (loggedTypeFailures (warnOnce es ?h'))"
    by (rule Cons.IH)
  then show ?case by simp
qed

lemma renders_Production: "renders Production ps h = h"
  by (induction ps arbitrary: h) (simp_all add: renderWidget_def)

lemma renders_invariant:
  assumes "distinct (console h)" and "set (console h) \<subseteq> set (loggedTypeFailures h)"
  shows "distinct (console (renders b ps h))
       \<and> set (console (renders b ps h)) \<subseteq> set (loggedTypeFailures (renders b ps h))"
  using assms
proof (induction ps arbitrary: h)
  case Nil
  then show ?case by simp
next
  case (Cons props ps)
  have "distinct (console (snd (renderWidget b props h)))
       \<and> set (console (snd (renderWidget b props h)))
           \<subseteq> set (loggedTypeFailures (snd (renderWidget b props h)))"
    using Cons.prems by (cases b) (simp_all add: renderWidget_def warnOnce_invariant)
  then show ?case using Cons.IH by simp
qed

lemma distinct_checkPropTypes_Widget: "distinct (checkPropTypes Widget_propTypes props)"
  by (simp add: checkPropTypes_Widget)

text \<open>
  Claim C5 as the specification states it: at render time \<^verbatim>\<open>header\<close> and
  \<^verbatim>\<open>footer\<close> are type-checked and any mismatch is propagated to the application as a
  configuration error. In a production build the table is not run: a header that is not
  renderable content (\<^verbatim>\<open>true\<close>) is reported nowhere and the widget's tree is produced.
\<close>

theorem production_mismatch_unreported_counterexample:
  "\<not> isNode (getp [(''header'', JBool True)] ''header'')
   \<and> renderWidget Production [(''header'', JBool True)] \<lparr>loggedTypeFailures = [], console = []\<rparr>
       = (Widget [(''header'', JBool True)], \<lparr>loggedTypeFailures = [], console = []\<rparr>)"
  by (simp add: renderWidget_def getp_def)

text \<open>
  Claim C5, amended: the widget declares \<^verbatim>\<open>header\<close> and \<^verbatim>\<open>footer\<close> as renderable
  content. In a development build a render reports to the application, as failed prop
  types, exactly the mismatches of these two props that have not been reported before: a
  second render of the same props reports nothing, and over any sequence of renders no
  failure is reported twice. In a production build no check is made. In neither build does
  a mismatch stop the render, and the widget has no failure of its own: the widget's tree
  is produced for every props object, and on a store the render returns whenever props is
  an object.
\<close>

theorem mismatch_warned_once_in_development:
  "fst (renderWidget b props h) = Widget props
   \<and> snd (renderWidget Production props h) = h
   \<and> console (snd (renderWidget Development props h)) =
       console h @ filter (\<lambda>e. e \<notin> set (loggedTypeFailures h))
         ((if isNode (getp props ''header'') then [] else [FailedPropType ''header''])
          @ (if isNode (getp props ''footer'') then [] else [FailedPropType ''footer'']))
   \<and> snd (renderWidget Development props (snd (renderWidget Development props h)))
       = snd (renderWidget Development props h)
   \<and> distinct (console (renders Development ps \<lparr>loggedTypeFailures = [], console = []\<rparr>))
   \<and> renders Production ps h = h
   \<and> (heap w p = Some props \<and> wf_world w
        \<longrightarrow> (\<exists>w'. Widget_run p w = Some (Widget props, w')))"
proof -
  have c: "console (snd (renderWidget Development props h)) =
       console h @ filter (\<lambda>e. e \<notin> set (loggedTypeFailures h))
         ((if isNode (getp props ''header'') then [] else [FailedPropType ''header''])
          @ (if isNode (getp props ''footer'') then [] else [FailedPropType ''footer'']))"
    using console_warnOnce [OF distinct_checkPropTypes_Widget, of props h]
    by (simp add: renderWidget_def checkPropTypes_Widget)
  have r: "snd (renderWidget Development props (snd (renderWidget Development props h)))
       = snd (renderWidget Development props h)"
    by (simp add: renderWidget_def warnOnce_all_logged warnOnce_logs_all)
  have d: "distinct (console (renders Development ps \<lparr>loggedTypeFailures = [], console = []\<rparr>))"
    using renders_invariant [of "\<lparr>loggedTypeFailures = [], console = []\<rparr>" Development ps]
    by simp
  have f: "fst (renderWidget b props h) = Widget props"
    and q: "snd (renderWidget Production props h) = h"
    by (simp_all add: renderWidget_def)
  from c r d f q show ?thesis
    by (simp add: renders_Production Widget_run_result)
qed

theorem mismatch_warned_once_in_development_witness:
  "console (snd (renderWidget Development
       [(''header'', JBool True), (''footer'', JArr [JStr ''a'', JNum 2])]
       \<lparr>loggedTypeFailures = [], console = []\<rparr>)) = [FailedPropType ''header'']
   \<and> console (snd (renderWidget Development
       [(''header'', JBool True), (''footer'', JArr [JStr ''a'', JNum 2])]
       \<lparr>loggedTypeFailures = [FailedPropType ''header''], console = []\<rparr>)) = []
   \<and> heap \<lparr>heap = [2 \<mapsto> [(''header'', JBool True), (''footer'', JArr [JStr ''a'', JNum 2])]],
            fresh = 3\<rparr> 2
        = Some [(''header'', JBool True), (''footer'', JArr [JStr ''a'', JNum 2])]
   \<and> wf_world \<lparr>heap = [2 \<mapsto> [(''header'', JBool True), (''footer'', JArr [JStr ''a'', JNum 2])]],
                fresh = 3\<rparr>
   \<and> (\<exists>w'. Widget_run 2
               \<lparr>heap = [2 \<mapsto> [(''header'', JBool True), (''footer'', JArr [JStr ''a'', JNum 2])]],
                fresh = 3\<rparr>
             = Some (Widget [(''header'', JBool True), (''footer'', JArr [JStr ''a'', JNum 2])], w'))"
proof -
  let ?props = "[(''header'', JBool True), (''footer'', JArr [JStr ''a'', JNum 2])]"
  let ?w = "\<lparr>heap = [2 \<mapsto> ?props], fresh = 3\<rparr>"
  have w: "heap ?w 2 = Some ?props \<and> wf_world ?w"
    by (simp add: wf_world_def)
  show ?thesis
    using w
      mismatch_warned_once_in_development
        [of Development ?props "\<lparr>loggedTypeFailures = [], console = []\<rparr>" "[]" ?w 2]
      mismatch_warned_once_in_development
        [of Development ?props "\<lparr>loggedTypeFailures = [FailedPropType ''header''], console = []\<rparr>"
            "[]" ?w 2]
    by (simp add: getp_def)
qed

text \<open>
  Claim C9: the widget's own validation covers \<^verbatim>\<open>header\<close> and \<^verbatim>\<open>footer\<close> only,
  each optional: the table has these two entries, props without a header and a footer pass
  whatever else they hold, setting any other prop to any value leaves the outcome of the
  check as it was, and every other prop of props is forwarded to the inner renderer with
  its value.
\<close>

theorem validation_covers_header_footer_only:
  "map fst Widget_propTypes = [''header'', ''footer'']
   \<and> (\<not> provided (getp props ''header'') \<and> \<not> provided (getp props ''footer'')
        \<longrightarrow> checkPropTypes Widget_propTypes props = [])
   \<and> (k \<noteq> ''header'' \<and> k \<noteq> ''footer''
        \<longrightarrow> checkPropTypes Widget_propTypes (setp k v props)
              = checkPropTypes Widget_propTypes props)
   \<and> (k \<notin> set RESERVED_PROPS \<and> map_of props k = Some v
        \<longrightarrow> map_of (elemProps (innerElement (Widget props))) k = Some v)"
proof -
  have "map fst Widget_propTypes = [''header'', ''footer'']"
    by (simp add: Widget_propTypes_def)
  then show ?thesis
    by (auto simp: checkPropTypes_Widget getp_setp provided_def elemProps_inner)
qed

theorem validation_covers_header_footer_only_witness:
  "\<not> provided (getp [(''attributes'', JNum 3), (''limitMin'', JStr ''ten'')] ''header'')
   \<and> \<not> provided (getp [(''attributes'', JNum 3), (''limitMin'', JStr ''ten'')] ''footer'')
   \<and> checkPropTypes Widget_propTypes [(''attributes'', JNum 3), (''limitMin'', JStr ''ten'')] = []
   \<and> checkPropTypes Widget_propTypes
        (setp ''attributes'' (JNum 3) [(''attributes'', JNum 3), (''limitMin'', JStr ''ten'')]) = []
   \<and> ''attributes'' \<notin> set RESERVED_PROPS
   \<and> map_of [(''attributes'', JNum 3), (''limitMin'', JStr ''ten'')] ''attributes'' = Some (JNum 3)
   \<and> map_of (elemProps (innerElement (Widget
        [(''attributes'', JNum 3), (''limitMin'', JStr ''ten'')]))) ''attributes'' = Some (JNum 3)"
  using validation_covers_header_footer_only
    [of "[(''attributes'', JNum 3), (''limitMin'', JStr ''ten'')]" "''attributes''" "JNum 3"]
  by (simp add: provided_def getp_def RESERVED_PROPS_def)

section \<open>Statelessness\<close>

text \<open>
  Claim C6: the render is stateless and deterministic. Run on any two stores that hold the
  same props, at whatever addresses, it returns the same output, which is the value of
  \<^verbatim>\<open>Widget\<close> on those props; and it changes no object that existed before the render,
  the props object among them: its only writes go to the two object literals it allocates.
\<close>

theorem render_deterministic_and_effect_free:
  assumes "heap w1 p1 = Some props" and "wf_world w1"
    and "heap w2 p2 = Some props" and "wf_world w2"
  shows "\<exists>w1' w2'. Widget_run p1 w1 = Some (Widget props, w1')
                \<and> Widget_run p2 w2 = Some (Widget props, w2')
                \<and> preserved w1 w1' \<and> preserved w2 w2'"
  using assms by (simp add: Widget_run_result preserved_alloc2)

theorem render_deterministic_and_effect_free_witness:
  "heap \<lparr>heap = [0 \<mapsto> [(''footer'', JStr ''End'')]], fresh = 1\<rparr> 0 = Some [(''footer'', JStr ''End'')]
   \<and> wf_world \<lparr>heap = [0 \<mapsto> [(''footer'', JStr ''End'')]], fresh = 1\<rparr>
   \<and> heap \<lparr>heap = [0 \<mapsto> [], 4 \<mapsto> [(''footer'', JStr ''End'')]], fresh = 5\<rparr> 4
        = Some [(''footer'', JStr ''End'')]
   \<and> wf_world \<lparr>heap = [0 \<mapsto> [], 4 \<mapsto> [(''footer'', JStr ''End'')]], fresh = 5\<rparr>
   \<and> (\<exists>w1' w2'.
         Widget_run 0 \<lparr>heap = [0 \<mapsto> [(''footer'', JStr ''End'')]], fresh = 1\<rparr>
           = Some (Widget [(''footer'', JStr ''End'')], w1')
       \<and> Widget_run 4 \<lparr>heap = [0 \<mapsto> [], 4 \<mapsto> [(''footer'', JStr ''End'')]], fresh = 5\<rparr>
           = Some (Widget [(''footer'', JStr ''End'')], w2')
       \<and> preserved \<lparr>heap = [0 \<mapsto> [(''footer'', JStr ''End'')]], fresh = 1\<rparr> w1'
       \<and> preserved \<lparr>heap = [0 \<mapsto> [], 4 \<mapsto> [(''footer'', JStr ''End'')]], fresh = 5\<rparr> w2')"
proof -
  let ?w1 = "\<lparr>heap = [0 \<mapsto> [(''footer'', JStr ''End'')]], fresh = 1\<rparr>"
  let ?w2 = "\<lparr>heap = [0 \<mapsto> [], 4 \<mapsto> [(''footer'', JStr ''End'')]], fresh = 5\<rparr>"
  have h1: "heap ?w1 0 = Some [(''footer'', JStr ''End'')]" by simp
  have h2: "wf_world ?w1" by (simp add: wf_world_def)
  have h3: "heap ?w2 4 = Some [(''footer'', JStr ''End'')]" by simp
  have h4: "wf_world ?w2" by (simp add: wf_world_def)
  show ?thesis
    using h1 h2 h3 h4 render_deterministic_and_effect_free [OF h1 h2 h3 h4] by blast
qed

section \<open>Defaults of the configuration\<close>

lemma getp_resolve_loop:
  "getp (fold (\<lambda>propName ps. if getp ps propName = JUndefined
                                then setp propName (getp defaults propName) ps else ps)
              ks props) k =
     (if k \<in> set ks \<and> getp props k = JUndefined then getp defaults k else getp props k)"
  by (induction ks arbitrary: props) (auto simp: getp_setp)

lemma getp_resolveDefaultProps:
  "getp (resolveDefaultProps defaults props) k =
     (if hasOwnProperty defaults k \<and> getp props k = JUndefined
      then getp defaults k else getp props k)"
  by (simp add: resolveDefaultProps_def getp_resolve_loop hasOwnProperty_def)

lemma received_default:
  assumes "hasOwnProperty defaultProps k" and "omitted state config k"
  shows "received state config k = getp defaultProps k"
proof -
  from assms(1) have "k \<notin> set RESERVED_PROPS" and "k \<noteq> ''cx''"
    by (auto simp: hasOwnProperty_def defaultProps_def RESERVED_PROPS_def)
  then show ?thesis
    using assms
    by (simp add: received_def omitted_def HierarchicalMenu_def connectHierarchicalMenu_def
        getp_inner getp_extends getp_resolveDefaultProps)
qed

lemma defaultProps_values:
  "hasOwnProperty defaultProps ''showMore''" "getp defaultProps ''showMore'' = JBool False"
  "hasOwnProperty defaultProps ''limitMin''" "getp defaultProps ''limitMin'' = JNum 10"
  "hasOwnProperty defaultProps ''limitMax''" "getp defaultProps ''limitMax'' = JNum 20"
  "hasOwnProperty defaultProps ''separator''" "getp defaultProps ''separator'' = JStr ''>''"
  "hasOwnProperty defaultProps ''rootPath''" "getp defaultProps ''rootPath'' = JNull"
  "hasOwnProperty defaultProps ''showParentLevel''"
  "getp defaultProps ''showParentLevel'' = JBool True"
  by (simp_all add: defaultProps_def hasOwnProperty_def getp_def)

text \<open>
  Claim C7: when the corresponding props are omitted the defaults are \<^verbatim>\<open>showMore\<close>
  false, \<^verbatim>\<open>limitMin\<close> 10, \<^verbatim>\<open>limitMax\<close> 20, \<^verbatim>\<open>separator\<close> the string
  \<^verbatim>\<open>>\<close>, \<^verbatim>\<open>rootPath\<close> absent and \<^verbatim>\<open>showParentLevel\<close> true, and \<^verbatim>\<open>limitMax\<close>
  is not considered unless \<^verbatim>\<open>showMore\<close> is true. The defaults documented in the file are
  the ones the connector applies; each reaches the inner renderer when its prop is omitted;
  with \<^verbatim>\<open>showMore\<close> false the number of items shown is \<^verbatim>\<open>limitMin\<close> whatever
  \<^verbatim>\<open>limitMax\<close> is.
\<close>

theorem defaults_when_omitted:
  "documentedDefaults propTypeDocs = defaultProps
   \<and> (omitted state config ''showMore'' \<longrightarrow> received state config ''showMore'' = JBool False)
   \<and> (omitted state config ''limitMin'' \<longrightarrow> received state config ''limitMin'' = JNum 10)
   \<and> (omitted state config ''limitMax'' \<longrightarrow> received state config ''limitMax'' = JNum 20)
   \<and> (omitted state config ''separator'' \<longrightarrow> received state config ''separator'' = JStr ''>'')
   \<and> (omitted state config ''rootPath'' \<longrightarrow> \<not> provided (received state config ''rootPath''))
   \<and> (omitted state config ''showParentLevel''
        \<longrightarrow> received state config ''showParentLevel'' = JBool True)
   \<and> itemLimit False expanded limitMin limitMax = limitMin
   \<and> itemLimit False expanded limitMin limitMax = itemLimit False expanded limitMin limitMax'"
proof -
  have "documentedDefaults propTypeDocs = defaultProps"
    by (simp add: propTypeDocs_def defaultProps_def)
  moreover have "itemLimit False expanded limitMin l = limitMin" for l
    by (simp add: itemLimit_def)
  ultimately show ?thesis
    by (simp add: received_default defaultProps_values provided_def)
qed

theorem defaults_when_omitted_witness:
  "omitted [(''items'', JArr [])] [(''attributes'', JArr [JStr ''category''])] ''showMore''
   \<and> omitted [(''items'', JArr [])] [(''attributes'', JArr [JStr ''category''])] ''limitMin''
   \<and> omitted [(''items'', JArr [])] [(''attributes'', JArr [JStr ''category''])] ''limitMax''
   \<and> omitted [(''items'', JArr [])] [(''attributes'', JArr [JStr ''category''])] ''separator''
   \<and> omitted [(''items'', JArr [])] [(''attributes'', JArr [JStr ''category''])] ''rootPath''
   \<and> omitted [(''items'', JArr [])] [(''attributes'', JArr [JStr ''category''])] ''showParentLevel''
   \<and> received [(''items'', JArr [])] [(''attributes'', JArr [JStr ''category''])] ''showMore''
        = JBool False
   \<and> received [(''items'', JArr [])] [(''attributes'', JArr [JStr ''category''])] ''limitMin''
        = JNum 10
   \<and> received [(''items'', JArr [])] [(''attributes'', JArr [JStr ''category''])] ''limitMax''
        = JNum 20
   \<and> received [(''items'', JArr [])] [(''attributes'', JArr [JStr ''category''])] ''separator''
        = JStr ''>''
   \<and> \<not> provided (received [(''items'', JArr [])] [(''attributes'', JArr [JStr ''category''])]
        ''rootPath'')
   \<and> received [(''items'', JArr [])] [(''attributes'', JArr [JStr ''category''])]
        ''showParentLevel'' = JBool True
   \<and> itemLimit False True 10 20 = 10"
proof -
  have o: "omitted [(''items'', JArr [])] [(''attributes'', JArr [JStr ''category''])] k"
    if "k \<noteq> ''items''" and "k \<noteq> ''attributes''" for k
    using that by (simp add: omitted_def getp_def hasOwnProperty_def)
  show ?thesis
    using defaults_when_omitted
      [of "[(''items'', JArr [])]" "[(''attributes'', JArr [JStr ''category''])]" True 10 20 20]
    by (simp add: o)
qed

section \<open>Theme keys\<close>

lemma decimal_not_Nil: "decimal n \<noteq> []"
  by (subst decimal.simps) simp

lemma of_char_digit: "d < 10 \<Longrightarrow> of_char (digit d) - 48 = d"
  by (simp add: digit_def)

lemma decimal_inverse: "foldl (\<lambda>a c. 10 * a + (of_char c - 48)) 0 (decimal n) = n"
proof (induction n rule: decimal.induct)
  case (1 n)
  show ?case
  proof (cases "n < 10")
    case True
    then show ?thesis by (subst decimal.simps) (simp add: of_char_digit)
  next
    case False
    with 1 show ?thesis by (subst decimal.simps) (simp add: of_char_digit)
  qed
qed

lemma decimal_inj: "decimal m = decimal n \<Longrightarrow> m = n"
  by (metis decimal_inverse)

lemma themeKey_inj: "inj themeKey"
proof (rule injI)
  fix a b assume "themeKey a = themeKey b"
  then show "a = b"
    by (cases a; cases b) (simp_all add: decimal_not_Nil decimal_inj)
qed

lemma searchBox_not_spec: "specRegion r \<Longrightarrow> themeKey r \<noteq> ''ais-HierarchicalMenu-searchBox''"
  by (cases r) simp_all

lemma list_not_spec: "specRegion r \<Longrightarrow> themeKey r \<noteq> ''ais-HierarchicalMenu-list''"
  by (cases r) (simp_all add: decimal_not_Nil)

lemma searchBox_notin: "''ais-HierarchicalMenu-searchBox'' \<notin> specThemeKeys"
proof
  assume "''ais-HierarchicalMenu-searchBox'' \<in> specThemeKeys"
  then obtain r where "specRegion r" and "''ais-HierarchicalMenu-searchBox'' = themeKey r"
    unfolding specThemeKeys_def by blast
  with searchBox_not_spec [of r] show False by simp
qed

lemma list_notin: "''ais-HierarchicalMenu-list'' \<notin> specThemeKeys"
proof
  assume "''ais-HierarchicalMenu-list'' \<in> specThemeKeys"
  then obtain r where "specRegion r" and "''ais-HierarchicalMenu-list'' = themeKey r"
    unfolding specThemeKeys_def by blast
  with list_not_spec [of r] show False by simp
qed

lemma spec_key_in: "specRegion r \<Longrightarrow> themeKey r \<in> specThemeKeys"
  unfolding specThemeKeys_def by blast

lemma set_eq_with_two:
  "A \<subseteq> S \<union> {a, b} \<Longrightarrow> S \<subseteq> A \<Longrightarrow> a \<in> A \<Longrightarrow> b \<in> A \<Longrightarrow> A = S \<union> {a, b}"
  by blast

lemma themeKeys_eq:
  "themeKeys = specThemeKeys \<union> {''ais-HierarchicalMenu-searchBox'', ''ais-HierarchicalMenu-list''}"
proof -
  have "themeKey r \<in> specThemeKeys
          \<union> {''ais-HierarchicalMenu-searchBox'', ''ais-HierarchicalMenu-list''}" for r
  proof (cases "specRegion r")
    case True
    then show ?thesis by (simp add: spec_key_in)
  next
    case False
    then have "r = SearchBox \<or> r = ListAll" by (cases r) simp_all
    then show ?thesis by (elim disjE) simp_all
  qed
  then have "themeKeys \<subseteq> specThemeKeys
          \<union> {''ais-HierarchicalMenu-searchBox'', ''ais-HierarchicalMenu-list''}"
    unfolding themeKeys_def by blast
  moreover have "specThemeKeys \<subseteq> themeKeys"
    unfolding themeKeys_def specThemeKeys_def by blast
  moreover have "themeKey SearchBox \<in> themeKeys" "themeKey ListAll \<in> themeKeys"
    unfolding themeKeys_def by (rule rangeI)+
  ultimately show ?thesis
    unfolding themeKey.simps by (rule set_eq_with_two)
qed

text \<open>
  Claim C2 as the specification states it: the theme keys are exactly those of the regions
  root, header, body, one list per level, item, selected item, parent item, link, label,
  count and footer, and no other theme key exists. The file documents the key of the
  search box, which is none of them.
\<close>

theorem searchBox_key_counterexample:
  "''ais-HierarchicalMenu-searchBox'' \<in> themeKeys
   \<and> ''ais-HierarchicalMenu-searchBox'' \<notin> specThemeKeys"
proof -
  have "themeKey SearchBox \<in> themeKeys"
    unfolding themeKeys_def by (rule rangeI)
  then show ?thesis using searchBox_notin by simp
qed

text \<open>
  Claim C2, amended: the theme keys are those of the regions the specification lists
  together with two more, the key of the search box and the key of the list of menu items
  as such (beside the one key per level); each region has a key of its own.
\<close>

theorem themeKeys_enumeration:
  "themeKeys = specThemeKeys
                 \<union> {''ais-HierarchicalMenu-searchBox'', ''ais-HierarchicalMenu-list''}
   \<and> ''ais-HierarchicalMenu-searchBox'' \<notin> specThemeKeys
   \<and> ''ais-HierarchicalMenu-list'' \<notin> specThemeKeys
   \<and> inj themeKey"
  using themeKeys_eq searchBox_notin list_notin themeKey_inj by (intro conjI)

theorem themeKeys_enumeration_witness:
  "''ais-HierarchicalMenu-list'' \<in> themeKeys \<and> ''ais-HierarchicalMenu-list'' \<notin> specThemeKeys"
proof -
  note t = themeKeys_enumeration
  have "''ais-HierarchicalMenu-list'' \<in> specThemeKeys
          \<union> {''ais-HierarchicalMenu-searchBox'', ''ais-HierarchicalMenu-list''}"
    by simp
  then have "''ais-HierarchicalMenu-list'' \<in> themeKeys"
    by (simp only: conjunct1 [OF t, symmetric])
  moreover have "''ais-HierarchicalMenu-list'' \<notin> specThemeKeys"
    by (rule conjunct1 [OF conjunct2 [OF conjunct2 [OF t]]])
  ultimately show ?thesis by (rule conjI)
qed

end
